theory Spec2Isabelle
  imports Main
begin

section \<open>The gateway of \<open>app.py\<close>\<close>

text \<open>
  \<open>app.py\<close> is one Flask handler, \<open>gateway(path)\<close>, and \<open>root_gateway\<close>, which
  calls it with the empty path. The handler reads the inbound request, looks the Host
  header up in a MongoDB collection, and calls one function of the \<open>requests\<close> library.
  The model makes the two collaborators explicit: the collection is a list of route
  documents, the \<open>requests\<close> library is a function from the arguments of the call to
  either the text of a \<open>RequestException\<close> or a response. Every lookup and every
  outbound call is written to a log that the handler returns with its outcome. Reading
  \<open>request.json\<close> can raise; that exception is not a \<open>RequestException\<close>, so it
  leaves the handler, and the model returns it as the outcome.
\<close>

subsection \<open>Data\<close>

text \<open>JSON values (\<open>request.json\<close>, the argument of \<open>jsonify\<close>); Python's \<open>None\<close> is \<open>JNull\<close>.\<close>

datatype json =
    JNull
  | JBool bool
  | JInt int
  | JStr string
  | JArr "json list"
  | JObj "(string \<times> json) list"

text \<open>
  A Werkzeug \<open>MultiDict\<close> (\<open>request.args\<close>, \<open>request.form\<close>, \<open>request.files\<close>):
  the entries in the order they arrived, a name may repeat. A Python \<open>dict\<close>: entries
  in insertion order, each key once.
\<close>

type_synonym 'v multidict = "(string \<times> 'v) list"
type_synonym 'v dict = "(string \<times> 'v) list"

record file_storage =
  filename :: string
  stream :: string
  mimetype :: string

text \<open>
  The attributes of Flask's \<open>request\<close> that the handler reads. \<open>json\<close> is what
  reading \<open>request.json\<close> does: \<open>Inr\<close> the parsed payload, or \<open>Inl\<close> the status of
  the Werkzeug exception that it raises, 415 when the Content-Type of the request is not
  JSON (a form or a multipart request, or none at all) and 400 when the body does not
  parse.
\<close>

record request =
  request_method :: string
  headers :: "(string \<times> string) list"
  args :: "string multidict"
  files :: "file_storage multidict"
  form :: "string multidict"
  json :: "int + json"

text \<open>A document of \<open>routes_collection\<close>.\<close>

record route =
  host_url :: string
  target_url :: string

text \<open>
  One call of the \<open>requests\<close> library: the function called, the URL and the keyword
  arguments; \<open>None\<close> is a keyword argument that the call does not pass.
\<close>

datatype verb = requests_get | requests_post | requests_put | requests_patch | requests_delete

record call =
  verb :: verb
  url :: string
  kw_headers :: "string dict"
  kw_params :: "string multidict option"
  kw_data :: "string multidict option"
  kw_files :: "(string \<times> string \<times> string) dict option"
  kw_json :: "json option"

text \<open>
  The response object of \<open>requests\<close>: \<open>raw\<close> is the body as the upstream sent it,
  \<open>content\<close> is \<open>response.content\<close>, the body after \<open>requests\<close> has undone the
  Content-Encoding (gzip, deflate) that the headers name; \<open>status_code\<close> and
  \<open>response_headers\<close> (\<open>response.headers.items()\<close>) are the upstream's. The handler
  reads \<open>content\<close>, \<open>status_code\<close> and the headers, never \<open>raw\<close>.
\<close>

record response =
  raw :: string
  content :: string
  status_code :: int
  response_headers :: "(string \<times> string) list"

text \<open>
  How the view ends: it returns \<open>(jsonify(obj), status)\<close> or the triple
  \<open>(content, status_code, headers)\<close>, or an HTTP exception of Werkzeug with the given
  status leaves it.
\<close>

datatype reply =
    Jsonify json int
  | Relayed string int "(string \<times> string) list"
  | Raised int

datatype event = FindOne "string option" | Request call

subsection \<open>Python and library operations\<close>

text \<open>
  \<open>str.lower\<close> on the characters of a header name: the letters A to Z become a to z,
  every other character stays.
\<close>

definition lower_char :: "char \<Rightarrow> char" where
  "lower_char c =
     (if 65 \<le> (of_char c :: nat) \<and> (of_char c :: nat) \<le> 90
      then char_of ((of_char c :: nat) + 32) else c)"

definition lower :: "string \<Rightarrow> string" where
  "lower s = map lower_char s"

text \<open>\<open>s.rstrip(chars)\<close>: drops every trailing character that occurs in \<open>chars\<close>.\<close>

definition rstrip :: "string \<Rightarrow> string \<Rightarrow> string" where
  "rstrip s chars = rev (dropWhile (\<lambda>c. c \<in> set chars) (rev s))"

text \<open>\<open>request.headers.get(key)\<close>: the first header of that name, compared without case.\<close>

definition headers_get :: "(string \<times> string) list \<Rightarrow> string \<Rightarrow> string option" where
  "headers_get hs key = map_option snd (find (\<lambda>(k, v). lower k = lower key) hs)"

text \<open>
  \<open>routes_collection.find_one({'host_url': host_url})\<close>: the first document whose
  \<open>host_url\<close> is the value asked for. Every document of the model has a \<open>host_url\<close>,
  so a request without Host header (\<open>None\<close>) matches none.
\<close>

definition find_one :: "route list \<Rightarrow> string option \<Rightarrow> route option" where
  "find_one coll h = find (\<lambda>r. Some (host_url r) = h) coll"

text \<open>\<open>d[k] = v\<close> on a dict: an existing key keeps its place and takes the new value.\<close>

fun setitem :: "'v dict \<Rightarrow> string \<Rightarrow> 'v \<Rightarrow> 'v dict" where
  "setitem [] k v = [(k, v)]"
| "setitem ((k', v') # d) k v = (if k' = k then (k, v) # d else (k', v') # setitem d k v)"

text \<open>The dict comprehension \<open>{key: value for key, value in kvs}\<close>.\<close>

definition dict_of :: "(string \<times> 'v) list \<Rightarrow> 'v dict" where
  "dict_of kvs = foldl (\<lambda>d (k, v). setitem d k v) [] kvs"

text \<open>
  \<open>MultiDict.items()\<close>: one pair for each name, in the order in which the names first
  occur, with the first value of that name.
\<close>

fun items :: "'v multidict \<Rightarrow> (string \<times> 'v) list" where
  "items [] = []"
| "items ((k, v) # xs) = (k, v) # items (filter (\<lambda>(k', v'). k' \<noteq> k) xs)"

text \<open>
  The parts of the multipart body that \<open>requests\<close> builds for a call with \<open>files\<close>
  (\<open>_encode_files\<close>): first the fields of \<open>data\<close>, which it reads with \<open>.items()\<close>
  when \<open>data\<close> is a mapping, as a \<open>MultiDict\<close> is; then one part for each entry of
  \<open>files\<close>, with its name, filename, content and content type. A call without
  \<open>files\<close> has no multipart body.
\<close>

datatype part =
    FormField string string
  | FilePart string string string string

definition multipart_parts :: "call \<Rightarrow> part list" where
  "multipart_parts c =
     (case kw_files c of
        None \<Rightarrow> []
      | Some fs \<Rightarrow>
          map (\<lambda>(field, val). FormField field val)
            (items (case kw_data c of None \<Rightarrow> [] | Some d \<Rightarrow> d)) @
          map (\<lambda>(k, fn, fp, ft). FilePart k fn fp ft) fs)"

subsection \<open>The handler\<close>

text \<open>Line 26: \<open>f"http://{target_url}/{path}" if path else target_url\<close>.\<close>

definition full_target_url :: "string \<Rightarrow> string \<Rightarrow> string" where
  "full_target_url target path =
     (if path \<noteq> [] then ''http://'' @ target @ ''/'' @ path else target)"

text \<open>Line 31: the headers handed to \<open>requests\<close>.\<close>

definition forward_headers :: "(string \<times> string) list \<Rightarrow> string dict" where
  "forward_headers hs = dict_of (filter (\<lambda>(key, value). lower key \<noteq> ''host'') hs)"

text \<open>Lines 38, 44, 50: the \<open>files\<close> argument.\<close>

definition file_tuples :: "file_storage multidict \<Rightarrow> (string \<times> string \<times> string) dict" where
  "file_tuples fs =
     dict_of (map (\<lambda>(key, file). (key, (filename file, stream file, mimetype file))) (items fs))"

text \<open>Lines 59 to 61: the reply for the outcome of the \<open>requests\<close> call.\<close>

definition relay :: "string + response \<Rightarrow> reply" where
  "relay r =
     (case r of
        Inr resp \<Rightarrow> Relayed (content resp) (status_code resp) (response_headers resp)
      | Inl e \<Rightarrow> Jsonify (JObj [(''error'', JStr e)]) 500)"

definition send :: "(call \<Rightarrow> string + response) \<Rightarrow> event list \<Rightarrow> call \<Rightarrow> reply \<times> event list" where
  "send requests log c = (relay (requests c), log @ [Request c])"

definition gateway ::
  "route list \<Rightarrow> (call \<Rightarrow> string + response) \<Rightarrow> request \<Rightarrow> string \<Rightarrow> reply \<times> event list" where
  "gateway routes_collection requests req path =
     (let host = headers_get (headers req) ''host'';
          log = [FindOne host]
      in case find_one routes_collection host of
           None \<Rightarrow> (Jsonify (JObj [(''error'', JStr ''Route not found'')]) 404, log)
         | Some r \<Rightarrow>
             (let target = rstrip (target_url r) ''/'';
                  full = full_target_url target path;
                  hdrs = forward_headers (headers req)
              in if request_method req = ''GET'' then
                   send requests log
                     \<lparr>verb = requests_get, url = full, kw_headers = hdrs,
                      kw_params = Some (args req), kw_data = None, kw_files = None,
                      kw_json = None\<rparr>
                 else if request_method req = ''POST'' then
                   (if files req \<noteq> [] then
                      send requests log
                        \<lparr>verb = requests_post, url = full, kw_headers = hdrs,
                         kw_params = None, kw_data = Some (form req),
                         kw_files = Some (file_tuples (files req)), kw_json = None\<rparr>
                    else
                      (case json req of
                         Inl status \<Rightarrow> (Raised status, log)
                       | Inr j \<Rightarrow>
                           send requests log
                             \<lparr>verb = requests_post, url = full, kw_headers = hdrs,
                              kw_params = None, kw_data = None, kw_files = None,
                              kw_json = Some j\<rparr>))
                 else if request_method req = ''PUT'' then
                   (if files req \<noteq> [] then
                      send requests log
                        \<lparr>verb = requests_put, url = full, kw_headers = hdrs,
                         kw_params = None, kw_data = Some (form req),
                         kw_files = Some (file_tuples (files req)), kw_json = None\<rparr>
                    else
                      (case json req of
                         Inl status \<Rightarrow> (Raised status, log)
                       | Inr j \<Rightarrow>
                           send requests log
                             \<lparr>verb = requests_put, url = full, kw_headers = hdrs,
                              kw_params = None, kw_data = None, kw_files = None,
                              kw_json = Some j\<rparr>))
                 else if request_method req = ''PATCH'' then
                   (if files req \<noteq> [] then
                      send requests log
                        \<lparr>verb = requests_patch, url = full, kw_headers = hdrs,
                         kw_params = None, kw_data = Some (form req),
                         kw_files = Some (file_tuples (files req)), kw_json = None\<rparr>
                    else
                      (case json req of
                         Inl status \<Rightarrow> (Raised status, log)
                       | Inr j \<Rightarrow>
                           send requests log
                             \<lparr>verb = requests_patch, url = full, kw_headers = hdrs,
                              kw_params = None, kw_data = None, kw_files = None,
                              kw_json = Some j\<rparr>))
                 else if request_method req = ''DELETE'' then
                   send requests log
                     \<lparr>verb = requests_delete, url = full, kw_headers = hdrs,
                      kw_params = None, kw_data = None, kw_files = None,
                      kw_json = None\<rparr>
                 else (Jsonify (JObj [(''error'', JStr ''Method not allowed'')]) 405, log)))"

definition root_gateway ::
  "route list \<Rightarrow> (call \<Rightarrow> string + response) \<Rightarrow> request \<Rightarrow> reply \<times> event list" where
  "root_gateway routes_collection requests req = gateway routes_collection requests req ''''"

subsection \<open>Reading the log\<close>

fun store_lookups :: "event list \<Rightarrow> string option list" where
  "store_lookups [] = []"
| "store_lookups (FindOne h # es) = h # store_lookups es"
| "store_lookups (Request c # es) = store_lookups es"

fun upstream_calls :: "event list \<Rightarrow> call list" where
  "upstream_calls [] = []"
| "upstream_calls (FindOne h # es) = upstream_calls es"
| "upstream_calls (Request c # es) = c # upstream_calls es"

subsection \<open>Sample inputs\<close>

text \<open>
  A collection with one route. An upstream that refuses, one that answers, and one that
  answers with a gzip body: \<open>gzip_ok\<close> is the 22 bytes of the gzip stream of the two
  bytes \<open>ok\<close>.
\<close>

definition sample_routes :: "route list" where
  "sample_routes = [\<lparr>host_url = ''shop.test'', target_url = ''10.0.0.7:3000//''\<rparr>]"

definition refusing :: "call \<Rightarrow> string + response" where
  "refusing c = Inl ''Connection refused''"

definition answering :: "call \<Rightarrow> string + response" where
  "answering c =
     Inr \<lparr>raw = ''ok'', content = ''ok'', status_code = 201,
          response_headers = [(''Content-Length'', ''2''), (''X-Served-By'', ''a'')]\<rparr>"

definition gzip_ok :: string where
  "gzip_ok =
     map char_of
       [31, 139, 8, 0, 0, 0, 0, 0, 2, 3, 203, 207, 6, 0, 71, 221, 220, 121, 2, 0, 0, 0 :: nat]"

definition compressing :: "call \<Rightarrow> string + response" where
  "compressing c =
     Inr \<lparr>raw = gzip_ok, content = ''ok'', status_code = 200,
          response_headers = [(''Content-Encoding'', ''gzip''), (''Content-Length'', ''22'')]\<rparr>"

text \<open>
  A request with the JSON body \<open>{"sku": 7}\<close> and the query \<open>page=2\<close>; an upload with
  two files of one name and two form values of one name, on which reading
  \<open>request.json\<close> would raise; a form post without file, on which it raises.
\<close>

definition sample_request :: "string \<Rightarrow> request" where
  "sample_request m =
     \<lparr>request_method = m,
      headers = [(''Host'', ''shop.test''), (''Accept'', ''*/*''),
                 (''Content-Type'', ''application/json''), (''Content-Length'', ''10'')],
      args = [(''page'', ''2'')],
      files = [],
      form = [],
      json = Inr (JObj [(''sku'', JInt 7)])\<rparr>"

definition upload_request :: "string \<Rightarrow> request" where
  "upload_request m =
     \<lparr>request_method = m,
      headers = [(''Host'', ''shop.test''), (''Accept'', ''*/*''),
                 (''Content-Type'', ''multipart/form-data; boundary=x''),
                 (''Content-Length'', ''327'')],
      args = [],
      files = [(''doc'', \<lparr>filename = ''a.txt'', stream = ''first'', mimetype = ''text/plain''\<rparr>),
               (''doc'', \<lparr>filename = ''b.txt'', stream = ''second'', mimetype = ''text/plain''\<rparr>)],
      form = [(''note'', ''hi''), (''note'', ''again'')],
      json = Inl 415\<rparr>"

definition form_request :: "string \<Rightarrow> request" where
  "form_request m =
     \<lparr>request_method = m,
      headers = [(''Host'', ''shop.test''), (''Accept'', ''*/*''),
                 (''Content-Type'', ''application/x-www-form-urlencoded''),
                 (''Content-Length'', ''7'')],
      args = [],
      files = [],
      form = [(''note'', ''hi'')],
      json = Inl 415\<rparr>"

section \<open>Facts about the library operations\<close>

subsection \<open>Dicts\<close>

lemma setitem_fresh: "k \<notin> fst ` set d \<Longrightarrow> setitem d k v = d @ [(k, v)]"
  by (induction d k v rule: setitem.induct) auto

lemma map_of_setitem: "map_of (setitem d k v) = (map_of d)(k \<mapsto> v)"
  by (induction d k v rule: setitem.induct) (auto simp: fun_eq_iff)

lemma set_setitem: "set (setitem d k v) \<subseteq> insert (k, v) (set d)"
  by (induction d k v rule: setitem.induct) (auto split: if_splits)

lemma keys_setitem: "fst ` set (setitem d k v) = insert k (fst ` set d)"
  by (induction d k v rule: setitem.induct) auto

lemma distinct_setitem: "distinct (map fst d) \<Longrightarrow> distinct (map fst (setitem d k v))"
  by (induction d k v rule: setitem.induct) (auto simp: keys_setitem)

lemma foldl_setitem_distinct:
  "distinct (map fst (d @ kvs)) \<Longrightarrow> foldl (\<lambda>d (k, v). setitem d k v) d kvs = d @ kvs"
proof (induction kvs arbitrary: d)
  case Nil
  then show ?case by simp
next
  case (Cons kv kvs)
  obtain k v where kv: "kv = (k, v)" by (cases kv)
  from Cons.prems kv have fresh: "k \<notin> fst ` set d" by auto
  from Cons.prems kv have "distinct (map fst ((d @ [(k, v)]) @ kvs))" by auto
  from Cons.IH [OF this] show ?case by (simp add: kv setitem_fresh [OF fresh])
qed

lemma dict_of_distinct: "distinct (map fst kvs) \<Longrightarrow> dict_of kvs = kvs"
  using foldl_setitem_distinct [of "[]" kvs] by (simp add: dict_of_def)

lemma foldl_setitem_map_of:
  "map_of (foldl (\<lambda>d (k, v). setitem d k v) d kvs) = map_of d ++ map_of (rev kvs)"
proof (induction kvs arbitrary: d)
  case Nil
  then show ?case by simp
next
  case (Cons kv kvs)
  obtain k v where kv: "kv = (k, v)" by (cases kv)
  show ?case by (simp add: kv Cons.IH map_of_setitem fun_eq_iff map_add_def split: option.splits)
qed

lemma map_of_dict_of: "map_of (dict_of kvs) = map_of (rev kvs)"
  by (simp add: dict_of_def foldl_setitem_map_of)

lemma foldl_setitem_set:
  "set (foldl (\<lambda>d (k, v). setitem d k v) d kvs) \<subseteq> set d \<union> set kvs"
proof (induction kvs arbitrary: d)
  case Nil
  then show ?case by simp
next
  case (Cons kv kvs)
  obtain k v where kv: "kv = (k, v)" by (cases kv)
  from Cons.IH [of "setitem d k v"] set_setitem [of d k v] show ?case
    by (auto simp: kv)
qed

lemma set_dict_of: "set (dict_of kvs) \<subseteq> set kvs"
  using foldl_setitem_set [of "[]" kvs] by (simp add: dict_of_def)

lemma foldl_setitem_keys_distinct:
  "distinct (map fst d) \<Longrightarrow> distinct (map fst (foldl (\<lambda>d (k, v). setitem d k v) d kvs))"
proof (induction kvs arbitrary: d)
  case Nil
  then show ?case by simp
next
  case (Cons kv kvs)
  obtain k v where kv: "kv = (k, v)" by (cases kv)
  from Cons.IH [OF distinct_setitem [OF Cons.prems, of k v]] show ?case by (simp add: kv)
qed

lemma distinct_dict_of: "distinct (map fst (dict_of kvs))"
  using foldl_setitem_keys_distinct [of "[]" kvs] by (simp add: dict_of_def)

subsection \<open>\<open>MultiDict.items\<close>\<close>

lemma keys_items: "fst ` set (items xs) = fst ` set xs"
  by (induction xs rule: items.induct) (auto simp: image_iff)

lemma distinct_items: "distinct (map fst (items xs))"
  by (induction xs rule: items.induct) (auto simp: keys_items)

lemma map_of_filter_other:
  "k' \<noteq> k \<Longrightarrow> map_of (filter (\<lambda>(a, b). a \<noteq> k) xs) k' = map_of xs k'"
  by (induction xs) auto

lemma map_of_items: "map_of (items xs) k = map_of xs k"
  by (induction xs rule: items.induct) (auto simp: map_of_filter_other)

lemma map_of_filter_key:
  "map_of (filter (\<lambda>(a, b). P a) xs) k = (if P k then map_of xs k else None)"
  by (induction xs) auto

subsection \<open>\<open>rstrip\<close>\<close>

lemma rstrip_decompose: "\<exists>n. s = rstrip s [c] @ replicate n c"
proof -
  have "rev s = takeWhile (\<lambda>x. x = c) (rev s) @ dropWhile (\<lambda>x. x = c) (rev s)"
    by simp
  moreover have "takeWhile (\<lambda>x. x = c) (rev s) = replicate (length (takeWhile (\<lambda>x. x = c) (rev s))) c"
    by (rule replicate_length_same [symmetric]) (auto dest: set_takeWhileD)
  ultimately have "rev s = replicate (length (takeWhile (\<lambda>x. x = c) (rev s))) c @ dropWhile (\<lambda>x. x = c) (rev s)"
    by simp
  then have "rev (rev s) = rev (replicate (length (takeWhile (\<lambda>x. x = c) (rev s))) c @ dropWhile (\<lambda>x. x = c) (rev s))"
    by (rule arg_cong)
  then have "s = rstrip s [c] @ replicate (length (takeWhile (\<lambda>x. x = c) (rev s))) c"
    by (simp add: rstrip_def)
  then show ?thesis ..
qed

lemma rstrip_no_trailing: "rstrip s [c] = [] \<or> last (rstrip s [c]) \<noteq> c"
proof (cases "dropWhile (\<lambda>x. x = c) (rev s) = []")
  case True
  then show ?thesis by (simp add: rstrip_def)
next
  case False
  then have "hd (dropWhile (\<lambda>x. x = c) (rev s)) \<noteq> c"
    using hd_dropWhile [of "\<lambda>x. x = c" "rev s"] by simp
  with False show ?thesis by (simp add: rstrip_def last_rev)
qed


subsection \<open>The forwarded headers\<close>

lemma forward_headers_map_of:
  "map_of (forward_headers hs) k =
     (if lower k \<noteq> ''host'' then map_of (rev hs) k else None)"
  by (simp add: forward_headers_def map_of_dict_of rev_filter map_of_filter_key)

lemma forward_headers_set:
  "(k, v) \<in> set (forward_headers hs) \<Longrightarrow> lower k \<noteq> ''host'' \<and> (k, v) \<in> set hs"
  using set_dict_of [of "filter (\<lambda>(key, value). lower key \<noteq> ''host'') hs"]
  by (auto simp: forward_headers_def)

lemma forward_headers_distinct:
  assumes "distinct (map fst hs)"
  shows "forward_headers hs = filter (\<lambda>(key, value). lower key \<noteq> ''host'') hs"
  unfolding forward_headers_def
  by (rule dict_of_distinct) (rule distinct_map_filter [OF assms])


subsection \<open>The forwarded files\<close>

lemma file_tuples_items:
  "file_tuples fs =
     map (\<lambda>(key, file). (key, filename file, stream file, mimetype file)) (items fs)"
proof -
  have "distinct (map fst (map (\<lambda>(key, file). (key, filename file, stream file, mimetype file))
                             (items fs)))"
    using distinct_items [of fs] by (simp add: comp_def case_prod_unfold)
  then show ?thesis unfolding file_tuples_def by (rule dict_of_distinct)
qed

lemma file_tuples_first:
  "map_of (file_tuples fs) name =
     map_option (\<lambda>file. (filename file, stream file, mimetype file)) (map_of fs name)"
proof -
  have "map_of (file_tuples fs) name =
          map_option (\<lambda>file. (filename file, stream file, mimetype file))
            (map_of (items fs) name)"
    by (simp add: file_tuples_items map_of_map)
  then show ?thesis by (simp add: map_of_items)
qed

lemma file_tuples_distinct: "distinct (map fst (file_tuples fs))"
  unfolding file_tuples_def by (rule distinct_dict_of)

subsection \<open>The sample route\<close>

lemma sample_route_found:
  "find_one sample_routes (headers_get (headers (sample_request m)) ''host'') =
     Some \<lparr>host_url = ''shop.test'', target_url = ''10.0.0.7:3000//''\<rparr>"
  by code_simp

lemma upload_route_found:
  "find_one sample_routes (headers_get (headers (upload_request m)) ''host'') =
     Some \<lparr>host_url = ''shop.test'', target_url = ''10.0.0.7:3000//''\<rparr>"
  by code_simp

section \<open>Properties\<close>

subsection \<open>Unknown host\<close>

text \<open>
  C3. When the collection has no route for the request's Host header, the handler
  replies 404 with \<open>{"error": "Route not found"}\<close>, whatever the method, the path and
  the body are, and the log holds the lookup only: no upstream call is made.
\<close>

theorem gateway_route_not_found:
  assumes "find_one coll (headers_get (headers req) ''host'') = None"
  shows "gateway coll up req path =
           (Jsonify (JObj [(''error'', JStr ''Route not found'')]) 404,
            [FindOne (headers_get (headers req) ''host'')]) \<and>
         upstream_calls (snd (gateway coll up req path)) = []"
  using assms by (simp add: gateway_def)

theorem gateway_route_not_found_witness:
  "find_one [] (headers_get (headers (sample_request ''POST'')) ''host'') = None
   \<and> gateway [] answering (sample_request ''POST'') ''cart/1'' =
       (Jsonify (JObj [(''error'', JStr ''Route not found'')]) 404, [FindOne (Some ''shop.test'')])
   \<and> upstream_calls (snd (gateway [] answering (sample_request ''POST'') ''cart/1'')) = []"
proof -
  have h: "find_one [] (headers_get (headers (sample_request ''POST'')) ''host'') = None"
    by (simp add: find_one_def)
  have host: "headers_get (headers (sample_request ''POST'')) ''host'' = Some ''shop.test''"
    by code_simp
  from gateway_route_not_found [OF h, of answering "''cart/1''"] h host
  show ?thesis by simp
qed

subsection \<open>The body of POST, PUT and PATCH\<close>

text \<open>
  C1, as the code has it. For a POST, PUT or PATCH on a known host the body is decided by
  one test, \<open>request.files\<close>. With a file the handler makes one outbound call with
  \<open>data\<close> and \<open>files\<close> and no \<open>json\<close>: the form, and for each file name of
  \<open>request.files.items()\<close> the triple of filename, stream and mimetype. The multipart
  body of that call has the first value of each form field name, then one file part for
  each file name. \<open>request.json\<close> is not read, so the outcome does not depend on it.
  Without a file the handler reads \<open>request.json\<close>: when that yields a payload, it
  makes one outbound call with the payload as \<open>json\<close> and neither \<open>data\<close> nor
  \<open>files\<close>; when it raises, no call is made and the exception leaves the handler.
\<close>

theorem gateway_body_decision:
  assumes "find_one coll (headers_get (headers req) ''host'') = Some r"
    and "request_method req \<in> {''POST'', ''PUT'', ''PATCH''}"
  shows "(files req \<noteq> [] \<longrightarrow>
            (\<exists>c. upstream_calls (snd (gateway coll up req path)) = [c] \<and>
                 kw_data c = Some (form req) \<and>
                 kw_files c =
                   Some (map (\<lambda>(key, file). (key, filename file, stream file, mimetype file))
                           (items (files req))) \<and>
                 kw_json c = None \<and>
                 multipart_parts c =
                   map (\<lambda>(field, val). FormField field val) (items (form req)) @
                   map (\<lambda>(key, file). FilePart key (filename file) (stream file) (mimetype file))
                     (items (files req))) \<and>
            (\<forall>j. gateway coll up (req\<lparr>json := j\<rparr>) path = gateway coll up req path)) \<and>
         (files req = [] \<longrightarrow>
            (case json req of
               Inr j \<Rightarrow>
                 \<exists>c. upstream_calls (snd (gateway coll up req path)) = [c] \<and>
                     kw_json c = Some j \<and> kw_data c = None \<and> kw_files c = None
             | Inl status \<Rightarrow>
                 gateway coll up req path =
                   (Raised status, [FindOne (headers_get (headers req) ''host'')])))"
proof -
  have ft: "file_tuples (files req) =
              map (\<lambda>(key, file). (key, filename file, stream file, mimetype file))
                (items (files req))"
    by (rule file_tuples_items)
  have parts: "map (\<lambda>(k, fn, fp, ft). FilePart k fn fp ft)
                 (map (\<lambda>(key, file). (key, filename file, stream file, mimetype file)) fs) =
               map (\<lambda>(key, file). FilePart key (filename file) (stream file) (mimetype file)) fs"
    for fs :: "file_storage multidict"
    by (induction fs) auto
  from assms have with_files: "files req \<noteq> [] \<longrightarrow>
            (\<exists>c. upstream_calls (snd (gateway coll up req path)) = [c] \<and>
                 kw_data c = Some (form req) \<and>
                 kw_files c =
                   Some (map (\<lambda>(key, file). (key, filename file, stream file, mimetype file))
                           (items (files req))) \<and>
                 kw_json c = None \<and>
                 multipart_parts c =
                   map (\<lambda>(field, val). FormField field val) (items (form req)) @
                   map (\<lambda>(key, file). FilePart key (filename file) (stream file) (mimetype file))
                     (items (files req)))"
    by (auto simp: gateway_def send_def Let_def ft multipart_parts_def parts)
  from assms have ignored: "files req \<noteq> [] \<longrightarrow>
           (\<forall>j. gateway coll up (req\<lparr>json := j\<rparr>) path = gateway coll up req path)"
    by (auto simp: gateway_def send_def Let_def)
  from assms have without_files: "files req = [] \<longrightarrow>
            (case json req of
               Inr j \<Rightarrow>
                 \<exists>c. upstream_calls (snd (gateway coll up req path)) = [c] \<and>
                     kw_json c = Some j \<and> kw_data c = None \<and> kw_files c = None
             | Inl status \<Rightarrow>
                 gateway coll up req path =
                   (Raised status, [FindOne (headers_get (headers req) ''host'')]))"
    by (auto simp: gateway_def send_def Let_def split: sum.splits)
  from with_files ignored without_files show ?thesis by blast
qed

theorem gateway_body_decision_witness:
  "find_one sample_routes (headers_get (headers (upload_request ''PUT'')) ''host'') =
     Some \<lparr>host_url = ''shop.test'', target_url = ''10.0.0.7:3000//''\<rparr>
   \<and> request_method (upload_request ''PUT'') \<in> {''POST'', ''PUT'', ''PATCH''}
   \<and> files (upload_request ''PUT'') \<noteq> []
   \<and> map kw_data
         (upstream_calls (snd (gateway sample_routes answering (upload_request ''PUT'') ''img''))) =
       [Some [(''note'', ''hi''), (''note'', ''again'')]]
   \<and> map kw_files
         (upstream_calls (snd (gateway sample_routes answering (upload_request ''PUT'') ''img''))) =
       [Some [(''doc'', ''a.txt'', ''first'', ''text/plain'')]]
   \<and> map kw_json
         (upstream_calls (snd (gateway sample_routes answering (upload_request ''PUT'') ''img''))) =
       [None]
   \<and> map multipart_parts
         (upstream_calls (snd (gateway sample_routes answering (upload_request ''PUT'') ''img''))) =
       [[FormField ''note'' ''hi'', FilePart ''doc'' ''a.txt'' ''first'' ''text/plain'']]
   \<and> gateway sample_routes answering
         ((upload_request ''PUT'')\<lparr>json := Inr (JBool True)\<rparr>) ''img'' =
       gateway sample_routes answering (upload_request ''PUT'') ''img''
   \<and> find_one sample_routes (headers_get (headers (sample_request ''PUT'')) ''host'') =
       Some \<lparr>host_url = ''shop.test'', target_url = ''10.0.0.7:3000//''\<rparr>
   \<and> files (sample_request ''PUT'') = []
   \<and> json (sample_request ''PUT'') = Inr (JObj [(''sku'', JInt 7)])
   \<and> map kw_json
         (upstream_calls (snd (gateway sample_routes answering (sample_request ''PUT'') ''cart/1''))) =
       [Some (JObj [(''sku'', JInt 7)])]"
proof -
  have h1: "find_one sample_routes (headers_get (headers (upload_request ''PUT'')) ''host'') =
     Some \<lparr>host_url = ''shop.test'', target_url = ''10.0.0.7:3000//''\<rparr>"
    by (rule upload_route_found)
  have h2: "request_method (upload_request ''PUT'') \<in> {''POST'', ''PUT'', ''PATCH''}"
    by (simp add: upload_request_def)
  have h3: "files (upload_request ''PUT'') \<noteq> []"
    by (simp add: upload_request_def)
  have f: "form (upload_request ''PUT'') = [(''note'', ''hi''), (''note'', ''again'')]"
    by (simp add: upload_request_def)
  have i: "map (\<lambda>(key, file). (key, filename file, stream file, mimetype file))
             (items (files (upload_request ''PUT''))) =
           [(''doc'', ''a.txt'', ''first'', ''text/plain'')]"
    by (simp add: upload_request_def)
  have p: "map (\<lambda>(field, val). FormField field val) (items (form (upload_request ''PUT''))) @
           map (\<lambda>(key, file). FilePart key (filename file) (stream file) (mimetype file))
             (items (files (upload_request ''PUT''))) =
           [FormField ''note'' ''hi'', FilePart ''doc'' ''a.txt'' ''first'' ''text/plain'']"
    by (simp add: upload_request_def)
  note upload = gateway_body_decision [OF h1 h2, of answering "''img''"]
  from upload h3
  obtain c where c: "upstream_calls (snd (gateway sample_routes answering (upload_request ''PUT'') ''img'')) = [c]"
    and d: "kw_data c = Some (form (upload_request ''PUT''))"
    and k: "kw_files c = Some (map (\<lambda>(key, file). (key, filename file, stream file, mimetype file))
             (items (files (upload_request ''PUT''))))"
    and j: "kw_json c = None"
    and m: "multipart_parts c =
           map (\<lambda>(field, val). FormField field val) (items (form (upload_request ''PUT''))) @
           map (\<lambda>(key, file). FilePart key (filename file) (stream file) (mimetype file))
             (items (files (upload_request ''PUT'')))"
    by blast
  from m have m': "multipart_parts c =
           [FormField ''note'' ''hi'', FilePart ''doc'' ''a.txt'' ''first'' ''text/plain'']"
    by (simp only: p)
  from upload h3
  have g: "gateway sample_routes answering
             ((upload_request ''PUT'')\<lparr>json := Inr (JBool True)\<rparr>) ''img'' =
           gateway sample_routes answering (upload_request ''PUT'') ''img''"
    by blast
  have s1: "find_one sample_routes (headers_get (headers (sample_request ''PUT'')) ''host'') =
       Some \<lparr>host_url = ''shop.test'', target_url = ''10.0.0.7:3000//''\<rparr>"
    by (rule sample_route_found)
  have s2: "request_method (sample_request ''PUT'') \<in> {''POST'', ''PUT'', ''PATCH''}"
    by (simp add: sample_request_def)
  have s3: "files (sample_request ''PUT'') = []"
    by (simp add: sample_request_def)
  have s4: "json (sample_request ''PUT'') = Inr (JObj [(''sku'', JInt 7)])"
    by (simp add: sample_request_def)
  from gateway_body_decision [OF s1 s2, of answering "''cart/1''"] s3 s4
  obtain c' where c': "upstream_calls
        (snd (gateway sample_routes answering (sample_request ''PUT'') ''cart/1'')) = [c']"
    and j': "kw_json c' = Some (JObj [(''sku'', JInt 7)])"
    by auto
  show ?thesis unfolding c c' using h1 h2 h3 d k j m' g s1 s3 s4 j' by (simp add: f i)
qed

text \<open>
  C1 fails as written in two places. An upload whose form has two values of the name
  \<open>note\<close> is forwarded with the first value only, so not every form field is in the
  outbound body. A form post without file is not forwarded at all: reading
  \<open>request.json\<close> raises 415 and no outbound call is made.
\<close>

theorem body_decision_counterexample:
  "form (upload_request ''POST'') = [(''note'', ''hi''), (''note'', ''again'')] \<and>
   map multipart_parts
     (upstream_calls (snd (gateway sample_routes answering (upload_request ''POST'') ''img''))) =
     [[FormField ''note'' ''hi'', FilePart ''doc'' ''a.txt'' ''first'' ''text/plain'']] \<and>
   files (form_request ''POST'') = [] \<and>
   gateway sample_routes answering (form_request ''POST'') ''cart/1'' =
     (Raised 415, [FindOne (Some ''shop.test'')])"
  by code_simp

subsection \<open>The outbound URL\<close>

text \<open>
  C2, as the code has it. The route's target is split into a base that does not end in a
  slash and the slashes that followed it. With an empty path the outbound URL is that
  base; with a path it is \<open>http://\<close>, the base, a slash and the path. The claim as
  written leaves the \<open>http://\<close> out. The third assumption is that the handler gets
  as far as the call: where it reads \<open>request.json\<close>, the read does not raise.
\<close>

theorem gateway_outbound_url:
  assumes "find_one coll (headers_get (headers req) ''host'') = Some r"
    and "request_method req \<in> {''GET'', ''POST'', ''PUT'', ''PATCH'', ''DELETE''}"
    and "request_method req \<in> {''POST'', ''PUT'', ''PATCH''} \<and> files req = [] \<longrightarrow>
           (\<exists>j. json req = Inr j)"
  shows "\<exists>base n. target_url r = base @ replicate n (CHR ''/'') \<and>
           (base = [] \<or> last base \<noteq> CHR ''/'') \<and>
           map url (upstream_calls (snd (gateway coll up req path))) =
             [if path \<noteq> [] then ''http://'' @ base @ ''/'' @ path else base]"
proof -
  let ?base = "rstrip (target_url r) ''/''"
  from rstrip_decompose [of "target_url r" "CHR ''/''"]
  obtain n where n: "target_url r = ?base @ replicate n (CHR ''/'')" by blast
  have l: "?base = [] \<or> last ?base \<noteq> CHR ''/''" by (rule rstrip_no_trailing)
  from assms have u: "map url (upstream_calls (snd (gateway coll up req path))) =
             [if path \<noteq> [] then ''http://'' @ ?base @ ''/'' @ path else ?base]"
    by (auto simp: gateway_def send_def Let_def full_target_url_def)
  show ?thesis by (intro exI [of _ ?base] exI [of _ n] conjI n l u)
qed

theorem gateway_outbound_url_witness:
  "find_one sample_routes (headers_get (headers (sample_request ''DELETE'')) ''host'') =
     Some \<lparr>host_url = ''shop.test'', target_url = ''10.0.0.7:3000//''\<rparr>
   \<and> request_method (sample_request ''DELETE'') \<in> {''GET'', ''POST'', ''PUT'', ''PATCH'', ''DELETE''}
   \<and> request_method (sample_request ''DELETE'') \<notin> {''POST'', ''PUT'', ''PATCH''}
   \<and> (\<exists>base n. ''10.0.0.7:3000//'' = base @ replicate n (CHR ''/'') \<and>
         (base = [] \<or> last base \<noteq> CHR ''/'') \<and>
         map url (upstream_calls
           (snd (gateway sample_routes answering (sample_request ''DELETE'') ''cart/1''))) =
           [''http://'' @ base @ ''/cart/1''])"
proof -
  have h1: "find_one sample_routes (headers_get (headers (sample_request ''DELETE'')) ''host'') =
     Some \<lparr>host_url = ''shop.test'', target_url = ''10.0.0.7:3000//''\<rparr>"
    by (rule sample_route_found)
  have h2: "request_method (sample_request ''DELETE'') \<in> {''GET'', ''POST'', ''PUT'', ''PATCH'', ''DELETE''}"
    by (simp add: sample_request_def)
  have h3: "request_method (sample_request ''DELETE'') \<notin> {''POST'', ''PUT'', ''PATCH''}"
    by (simp add: sample_request_def)
  then have h4: "request_method (sample_request ''DELETE'') \<in> {''POST'', ''PUT'', ''PATCH''} \<and>
      files (sample_request ''DELETE'') = [] \<longrightarrow> (\<exists>j. json (sample_request ''DELETE'') = Inr j)"
    by blast
  from gateway_outbound_url [OF h1 h2 h4, of answering "''cart/1''"] h1 h2 h3
  show ?thesis by simp
qed

text \<open>
  C2 fails as written: for the route target \<open>10.0.0.7:3000//\<close> and the path
  \<open>cart/1\<close> the URL of the call is \<open>http://10.0.0.7:3000/cart/1\<close>, not the
  stripped target followed by a slash and the path.
\<close>

theorem outbound_url_counterexample:
  "target_url (hd sample_routes) = ''10.0.0.7:3000//'' \<and>
   map url
     (upstream_calls (snd (gateway sample_routes answering (sample_request ''GET'') ''cart/1''))) =
     [''http://10.0.0.7:3000/cart/1''] \<and>
   rstrip (target_url (hd sample_routes)) ''/'' @ ''/'' @ ''cart/1'' = ''10.0.0.7:3000/cart/1'' \<and>
   map url
     (upstream_calls (snd (gateway sample_routes answering (sample_request ''GET'') ''cart/1''))) \<noteq>
     [rstrip (target_url (hd sample_routes)) ''/'' @ ''/'' @ ''cart/1'']"
  by code_simp

text \<open>
  C9. The scheme depends on the path. With a path the URL of the outbound call is the
  literal \<open>http://\<close> followed by the stripped target, a slash and the path. With the
  empty path, which is also what \<open>root_gateway\<close> passes, the URL is the stripped
  target as it is stored, with nothing put in front of it. The third assumption is that
  the handler gets as far as the call: where it reads \<open>request.json\<close>, the read does
  not raise.
\<close>

theorem gateway_scheme_only_with_path:
  assumes "find_one coll (headers_get (headers req) ''host'') = Some r"
    and "request_method req \<in> {''GET'', ''POST'', ''PUT'', ''PATCH'', ''DELETE''}"
    and "request_method req \<in> {''POST'', ''PUT'', ''PATCH''} \<and> files req = [] \<longrightarrow>
           (\<exists>j. json req = Inr j)"
  shows "(path \<noteq> [] \<longrightarrow>
            map url (upstream_calls (snd (gateway coll up req path))) =
              [''http://'' @ rstrip (target_url r) ''/'' @ ''/'' @ path]) \<and>
         map url (upstream_calls (snd (gateway coll up req ''''))) = [rstrip (target_url r) ''/''] \<and>
         map url (upstream_calls (snd (root_gateway coll up req))) = [rstrip (target_url r) ''/'']"
  using assms by (auto simp: root_gateway_def gateway_def send_def Let_def full_target_url_def)

theorem gateway_scheme_only_with_path_witness:
  "find_one sample_routes (headers_get (headers (sample_request ''GET'')) ''host'') =
     Some \<lparr>host_url = ''shop.test'', target_url = ''10.0.0.7:3000//''\<rparr>
   \<and> request_method (sample_request ''GET'') \<in> {''GET'', ''POST'', ''PUT'', ''PATCH'', ''DELETE''}
   \<and> request_method (sample_request ''GET'') \<notin> {''POST'', ''PUT'', ''PATCH''}
   \<and> ''cart/1'' \<noteq> []
   \<and> map url (upstream_calls
         (snd (gateway sample_routes answering (sample_request ''GET'') ''cart/1''))) =
       [''http://10.0.0.7:3000/cart/1'']
   \<and> map url (upstream_calls
         (snd (gateway sample_routes answering (sample_request ''GET'') ''''))) =
       [''10.0.0.7:3000'']
   \<and> map url (upstream_calls
         (snd (root_gateway sample_routes answering (sample_request ''GET'')))) =
       [''10.0.0.7:3000'']"
proof -
  have h1: "find_one sample_routes (headers_get (headers (sample_request ''GET'')) ''host'') =
     Some \<lparr>host_url = ''shop.test'', target_url = ''10.0.0.7:3000//''\<rparr>"
    by (rule sample_route_found)
  have h2: "request_method (sample_request ''GET'') \<in> {''GET'', ''POST'', ''PUT'', ''PATCH'', ''DELETE''}"
    by (simp add: sample_request_def)
  have h3: "''cart/1'' \<noteq> []" by simp
  have s: "rstrip ''10.0.0.7:3000//'' ''/'' = ''10.0.0.7:3000''" by code_simp
  have h4: "request_method (sample_request ''GET'') \<notin> {''POST'', ''PUT'', ''PATCH''}"
    by (simp add: sample_request_def)
  then have h5: "request_method (sample_request ''GET'') \<in> {''POST'', ''PUT'', ''PATCH''} \<and>
      files (sample_request ''GET'') = [] \<longrightarrow> (\<exists>j. json (sample_request ''GET'') = Inr j)"
    by blast
  from gateway_scheme_only_with_path [OF h1 h2 h5, of "''cart/1''" answering] h1 h2 h3 h4
  show ?thesis by (simp add: s)
qed

subsection \<open>The forwarded headers\<close>

text \<open>
  C4. The headers of the outbound call are the inbound headers without Host. No header
  of the call has a name that is \<open>host\<close> in lower case, and every header of the call
  is an inbound header. Read as a dict, the headers of the call map every other name to
  the value that the inbound headers give it (the last one, should a name repeat). When
  no inbound name repeats, which is what Werkzeug delivers since it builds the headers
  from the keys of the WSGI environment, the headers of the call are exactly the
  inbound list with the Host entries filtered out. The third assumption is that the
  handler gets as far as the call: where it reads \<open>request.json\<close>, the read does not
  raise.
\<close>

theorem gateway_drops_host_header:
  assumes "find_one coll (headers_get (headers req) ''host'') = Some r"
    and "request_method req \<in> {''GET'', ''POST'', ''PUT'', ''PATCH'', ''DELETE''}"
    and "request_method req \<in> {''POST'', ''PUT'', ''PATCH''} \<and> files req = [] \<longrightarrow>
           (\<exists>j. json req = Inr j)"
  shows "\<exists>c. upstream_calls (snd (gateway coll up req path)) = [c] \<and>
           (\<forall>k. map_of (kw_headers c) k =
                  (if lower k \<noteq> ''host'' then map_of (rev (headers req)) k else None)) \<and>
           (\<forall>(k, v) \<in> set (kw_headers c). lower k \<noteq> ''host'' \<and> (k, v) \<in> set (headers req)) \<and>
           (distinct (map fst (headers req)) \<longrightarrow>
              kw_headers c = filter (\<lambda>(k, v). lower k \<noteq> ''host'') (headers req))"
proof -
  let ?h = "forward_headers (headers req)"
  from assms have "\<exists>c. upstream_calls (snd (gateway coll up req path)) = [c] \<and> kw_headers c = ?h"
    by (auto simp: gateway_def send_def Let_def)
  then obtain c where c: "upstream_calls (snd (gateway coll up req path)) = [c]"
    and h: "kw_headers c = ?h" by blast
  have m: "\<forall>k. map_of (kw_headers c) k =
                  (if lower k \<noteq> ''host'' then map_of (rev (headers req)) k else None)"
    unfolding h by (simp add: forward_headers_map_of)
  have s: "\<forall>(k, v) \<in> set (kw_headers c). lower k \<noteq> ''host'' \<and> (k, v) \<in> set (headers req)"
    unfolding h using forward_headers_set by blast
  have d: "distinct (map fst (headers req)) \<longrightarrow>
             kw_headers c = filter (\<lambda>(k, v). lower k \<noteq> ''host'') (headers req)"
    unfolding h by (simp add: forward_headers_distinct)
  show ?thesis by (rule exI [of _ c]) (intro conjI c m s d)
qed

theorem gateway_drops_host_header_witness:
  "find_one sample_routes (headers_get (headers (sample_request ''GET'')) ''host'') =
     Some \<lparr>host_url = ''shop.test'', target_url = ''10.0.0.7:3000//''\<rparr>
   \<and> request_method (sample_request ''GET'') \<in> {''GET'', ''POST'', ''PUT'', ''PATCH'', ''DELETE''}
   \<and> request_method (sample_request ''GET'') \<notin> {''POST'', ''PUT'', ''PATCH''}
   \<and> headers (sample_request ''GET'') =
       [(''Host'', ''shop.test''), (''Accept'', ''*/*''),
        (''Content-Type'', ''application/json''), (''Content-Length'', ''10'')]
   \<and> distinct (map fst (headers (sample_request ''GET'')))
   \<and> map kw_headers (upstream_calls
         (snd (gateway sample_routes answering (sample_request ''GET'') ''cart/1''))) =
       [[(''Accept'', ''*/*''), (''Content-Type'', ''application/json''),
         (''Content-Length'', ''10'')]]"
proof -
  have h1: "find_one sample_routes (headers_get (headers (sample_request ''GET'')) ''host'') =
     Some \<lparr>host_url = ''shop.test'', target_url = ''10.0.0.7:3000//''\<rparr>"
    by (rule sample_route_found)
  have h2: "request_method (sample_request ''GET'') \<in> {''GET'', ''POST'', ''PUT'', ''PATCH'', ''DELETE''}"
    by (simp add: sample_request_def)
  have h3: "request_method (sample_request ''GET'') \<notin> {''POST'', ''PUT'', ''PATCH''}"
    by (simp add: sample_request_def)
  then have h4: "request_method (sample_request ''GET'') \<in> {''POST'', ''PUT'', ''PATCH''} \<and>
      files (sample_request ''GET'') = [] \<longrightarrow> (\<exists>j. json (sample_request ''GET'') = Inr j)"
    by blast
  have hs: "headers (sample_request ''GET'') =
       [(''Host'', ''shop.test''), (''Accept'', ''*/*''),
        (''Content-Type'', ''application/json''), (''Content-Length'', ''10'')]"
    by (simp add: sample_request_def)
  have d: "distinct (map fst (headers (sample_request ''GET'')))"
    by (simp add: hs)
  have f: "filter (\<lambda>(k, v). lower k \<noteq> ''host'') (headers (sample_request ''GET'')) =
             [(''Accept'', ''*/*''), (''Content-Type'', ''application/json''),
              (''Content-Length'', ''10'')]"
    by code_simp
  from gateway_drops_host_header [OF h1 h2 h4, of answering "''cart/1''"] d
  obtain c where "upstream_calls
         (snd (gateway sample_routes answering (sample_request ''GET'') ''cart/1'')) = [c]"
    and "kw_headers c = filter (\<lambda>(k, v). lower k \<noteq> ''host'') (headers (sample_request ''GET''))"
    by blast
  with h1 h2 h3 hs d f show ?thesis by simp
qed

subsection \<open>Methods outside the five\<close>

text \<open>
  C5, as the code has it. The method is tested after the route lookup. For a method other
  than GET, POST, PUT, PATCH and DELETE on a host that has a route, the handler replies
  405 with \<open>{"error": "Method not allowed"}\<close>; the log holds one lookup of the route
  store and no outbound call.
\<close>

theorem gateway_method_not_allowed:
  assumes "find_one coll (headers_get (headers req) ''host'') = Some r"
    and "request_method req \<notin> {''GET'', ''POST'', ''PUT'', ''PATCH'', ''DELETE''}"
  shows "gateway coll up req path =
           (Jsonify (JObj [(''error'', JStr ''Method not allowed'')]) 405,
            [FindOne (headers_get (headers req) ''host'')]) \<and>
         store_lookups (snd (gateway coll up req path)) = [headers_get (headers req) ''host''] \<and>
         upstream_calls (snd (gateway coll up req path)) = []"
  using assms by (simp add: gateway_def Let_def)

theorem gateway_method_not_allowed_witness:
  "find_one sample_routes (headers_get (headers (sample_request ''HEAD'')) ''host'') =
     Some \<lparr>host_url = ''shop.test'', target_url = ''10.0.0.7:3000//''\<rparr>
   \<and> request_method (sample_request ''HEAD'') \<notin> {''GET'', ''POST'', ''PUT'', ''PATCH'', ''DELETE''}
   \<and> gateway sample_routes answering (sample_request ''HEAD'') ''cart/1'' =
       (Jsonify (JObj [(''error'', JStr ''Method not allowed'')]) 405,
        [FindOne (Some ''shop.test'')])
   \<and> store_lookups (snd (gateway sample_routes answering (sample_request ''HEAD'') ''cart/1'')) =
       [Some ''shop.test'']
   \<and> upstream_calls (snd (gateway sample_routes answering (sample_request ''HEAD'') ''cart/1'')) = []"
proof -
  have h1: "find_one sample_routes (headers_get (headers (sample_request ''HEAD'')) ''host'') =
     Some \<lparr>host_url = ''shop.test'', target_url = ''10.0.0.7:3000//''\<rparr>"
    by (rule sample_route_found)
  have h2: "request_method (sample_request ''HEAD'') \<notin> {''GET'', ''POST'', ''PUT'', ''PATCH'', ''DELETE''}"
    by (simp add: sample_request_def)
  have host: "headers_get (headers (sample_request ''HEAD'')) ''host'' = Some ''shop.test''"
    by code_simp
  from gateway_method_not_allowed [OF h1 h2, of answering "''cart/1''"] h1 h2
  show ?thesis by (simp add: host)
qed

text \<open>
  C5 fails as written: a HEAD request (Flask adds HEAD to every rule that allows GET)
  for a host without route is answered 404, not 405, and in every case the route store
  has been queried before the method is looked at.
\<close>

theorem method_not_allowed_counterexample:
  "request_method (sample_request ''HEAD'') \<notin> {''GET'', ''POST'', ''PUT'', ''PATCH'', ''DELETE''} \<and>
   gateway [] answering (sample_request ''HEAD'') '''' =
     (Jsonify (JObj [(''error'', JStr ''Route not found'')]) 404, [FindOne (Some ''shop.test'')]) \<and>
   store_lookups (snd (gateway sample_routes answering (sample_request ''HEAD'') '''')) =
     [Some ''shop.test'']"
  by code_simp

subsection \<open>Query parameters\<close>

text \<open>
  C6 fails on the code: only the GET branch passes \<open>params=request.args\<close>. A POST to
  \<open>/cart/1?page=2\<close> is forwarded with no \<open>params\<close> and a URL without query, while the
  same request as a GET carries the inbound query parameters.
\<close>

theorem post_drops_query_parameters:
  "args (sample_request ''POST'') = [(''page'', ''2'')] \<and>
   upstream_calls (snd (gateway sample_routes answering (sample_request ''POST'') ''cart/1'')) =
     [\<lparr>verb = requests_post, url = ''http://10.0.0.7:3000/cart/1'',
       kw_headers = [(''Accept'', ''*/*''), (''Content-Type'', ''application/json''),
                     (''Content-Length'', ''10'')],
       kw_params = None, kw_data = None,
       kw_files = None, kw_json = Some (JObj [(''sku'', JInt 7)])\<rparr>] \<and>
   map kw_params
     (upstream_calls (snd (gateway sample_routes answering (sample_request ''GET'') ''cart/1''))) =
     [Some [(''page'', ''2'')]]"
  by code_simp

subsection \<open>Upstream failure and relay\<close>

text \<open>
  C7. For a known host and each of the five methods, a handler that gets as far as the
  call (where it reads \<open>request.json\<close>, the read does not raise) makes exactly one
  outbound call; when that call raises a \<open>RequestException\<close> with text \<open>e\<close>, the
  reply is 500 with the JSON body \<open>{"error": e}\<close>. The text is passed on as it is, so
  it is non-empty whenever the exception's text is.
\<close>

theorem gateway_upstream_failure:
  assumes "find_one coll (headers_get (headers req) ''host'') = Some r"
    and "request_method req \<in> {''GET'', ''POST'', ''PUT'', ''PATCH'', ''DELETE''}"
    and "request_method req \<in> {''POST'', ''PUT'', ''PATCH''} \<and> files req = [] \<longrightarrow>
           (\<exists>j. json req = Inr j)"
  shows "\<exists>c. upstream_calls (snd (gateway coll up req path)) = [c] \<and>
           (\<forall>e. up c = Inl e \<longrightarrow>
              fst (gateway coll up req path) = Jsonify (JObj [(''error'', JStr e)]) 500)"
  using assms by (auto simp: gateway_def send_def relay_def Let_def)

theorem gateway_upstream_failure_witness:
  "find_one sample_routes (headers_get (headers (sample_request ''DELETE'')) ''host'') =
     Some \<lparr>host_url = ''shop.test'', target_url = ''10.0.0.7:3000//''\<rparr>
   \<and> request_method (sample_request ''DELETE'') \<in> {''GET'', ''POST'', ''PUT'', ''PATCH'', ''DELETE''}
   \<and> request_method (sample_request ''DELETE'') \<notin> {''POST'', ''PUT'', ''PATCH''}
   \<and> length (upstream_calls
         (snd (gateway sample_routes refusing (sample_request ''DELETE'') ''cart/1''))) = 1
   \<and> fst (gateway sample_routes refusing (sample_request ''DELETE'') ''cart/1'') =
       Jsonify (JObj [(''error'', JStr ''Connection refused'')]) 500"
proof -
  have h1: "find_one sample_routes (headers_get (headers (sample_request ''DELETE'')) ''host'') =
     Some \<lparr>host_url = ''shop.test'', target_url = ''10.0.0.7:3000//''\<rparr>"
    by (rule sample_route_found)
  have h2: "request_method (sample_request ''DELETE'') \<in> {''GET'', ''POST'', ''PUT'', ''PATCH'', ''DELETE''}"
    by (simp add: sample_request_def)
  have h3: "request_method (sample_request ''DELETE'') \<notin> {''POST'', ''PUT'', ''PATCH''}"
    by (simp add: sample_request_def)
  then have h4: "request_method (sample_request ''DELETE'') \<in> {''POST'', ''PUT'', ''PATCH''} \<and>
      files (sample_request ''DELETE'') = [] \<longrightarrow> (\<exists>j. json (sample_request ''DELETE'') = Inr j)"
    by blast
  from gateway_upstream_failure [OF h1 h2 h4, of refusing "''cart/1''"]
  obtain c where c: "upstream_calls
         (snd (gateway sample_routes refusing (sample_request ''DELETE'') ''cart/1'')) = [c]"
    and e: "\<forall>e. refusing c = Inl e \<longrightarrow>
          fst (gateway sample_routes refusing (sample_request ''DELETE'') ''cart/1'') =
            Jsonify (JObj [(''error'', JStr e)]) 500"
    by blast
  have "refusing c = Inl ''Connection refused''" by (simp add: refusing_def)
  with e have "fst (gateway sample_routes refusing (sample_request ''DELETE'') ''cart/1'') =
       Jsonify (JObj [(''error'', JStr ''Connection refused'')]) 500"
    by blast
  with h1 h2 h3 c show ?thesis by simp
qed

text \<open>
  C8 fails on the code. The handler relays \<open>response.content\<close>, which \<open>requests\<close> has
  already decoded, next to the upstream's headers, which still describe the body as it
  was sent. An upstream that answers a GET with the 22 bytes of a gzip body and the
  headers \<open>Content-Encoding: gzip\<close> and \<open>Content-Length: 22\<close> is relayed as the two
  decoded bytes \<open>ok\<close> under those same headers: the body is not the upstream's raw
  body.
\<close>

theorem relay_decoded_body:
  "upstream_calls (snd (gateway sample_routes compressing (sample_request ''GET'') ''cart/1'')) =
     [\<lparr>verb = requests_get, url = ''http://10.0.0.7:3000/cart/1'',
       kw_headers = [(''Accept'', ''*/*''), (''Content-Type'', ''application/json''),
                     (''Content-Length'', ''10'')],
       kw_params = Some [(''page'', ''2'')], kw_data = None, kw_files = None,
       kw_json = None\<rparr>] \<and>
   compressing
     \<lparr>verb = requests_get, url = ''http://10.0.0.7:3000/cart/1'',
      kw_headers = [(''Accept'', ''*/*''), (''Content-Type'', ''application/json''),
                    (''Content-Length'', ''10'')],
      kw_params = Some [(''page'', ''2'')], kw_data = None, kw_files = None,
      kw_json = None\<rparr> =
     Inr \<lparr>raw = gzip_ok, content = ''ok'', status_code = 200,
          response_headers = [(''Content-Encoding'', ''gzip''), (''Content-Length'', ''22'')]\<rparr> \<and>
   length gzip_ok = 22 \<and>
   fst (gateway sample_routes compressing (sample_request ''GET'') ''cart/1'') =
     Relayed ''ok'' 200 [(''Content-Encoding'', ''gzip''), (''Content-Length'', ''22'')] \<and>
   fst (gateway sample_routes compressing (sample_request ''GET'') ''cart/1'') \<noteq>
     Relayed gzip_ok 200 [(''Content-Encoding'', ''gzip''), (''Content-Length'', ''22'')]"
  by code_simp

subsection \<open>Files of the same name\<close>

text \<open>
  C10. For a POST, PUT or PATCH with files, the \<open>files\<close> argument of the outbound call
  has each field name at most once, and the entry of a name is the first inbound file of
  that name: later files of the same name are not forwarded.
\<close>

theorem gateway_one_file_per_name:
  assumes "find_one coll (headers_get (headers req) ''host'') = Some r"
    and "request_method req \<in> {''POST'', ''PUT'', ''PATCH''}"
    and "files req \<noteq> []"
  shows "\<exists>c fs. upstream_calls (snd (gateway coll up req path)) = [c] \<and>
           kw_files c = Some fs \<and> distinct (map fst fs) \<and>
           (\<forall>name. map_of fs name =
              map_option (\<lambda>file. (filename file, stream file, mimetype file))
                (map_of (files req) name))"
  using assms file_tuples_distinct [of "files req"] file_tuples_first [of "files req"]
  by (auto simp: gateway_def send_def Let_def)

theorem gateway_one_file_per_name_witness:
  "find_one sample_routes (headers_get (headers (upload_request ''POST'')) ''host'') =
     Some \<lparr>host_url = ''shop.test'', target_url = ''10.0.0.7:3000//''\<rparr>
   \<and> request_method (upload_request ''POST'') \<in> {''POST'', ''PUT'', ''PATCH''}
   \<and> map fst (files (upload_request ''POST'')) = [''doc'', ''doc'']
   \<and> (\<exists>c fs. upstream_calls
                (snd (gateway sample_routes refusing (upload_request ''POST'') ''img'')) = [c] \<and>
         kw_files c = Some fs \<and> distinct (map fst fs) \<and>
         map_of fs ''doc'' = Some (''a.txt'', ''first'', ''text/plain''))"
proof -
  have h1: "find_one sample_routes (headers_get (headers (upload_request ''POST'')) ''host'') =
     Some \<lparr>host_url = ''shop.test'', target_url = ''10.0.0.7:3000//''\<rparr>"
    by (rule upload_route_found)
  have h2: "request_method (upload_request ''POST'') \<in> {''POST'', ''PUT'', ''PATCH''}"
    by (simp add: upload_request_def)
  have h3: "files (upload_request ''POST'') \<noteq> []"
    by (simp add: upload_request_def)
  have n: "map fst (files (upload_request ''POST'')) = [''doc'', ''doc'']"
    by (simp add: upload_request_def)
  have m: "map_option (\<lambda>file. (filename file, stream file, mimetype file))
             (map_of (files (upload_request ''POST'')) ''doc'') =
           Some (''a.txt'', ''first'', ''text/plain'')"
    by (simp add: upload_request_def)
  from gateway_one_file_per_name [OF h1 h2 h3, of refusing "''img''"]
  obtain c fs where "upstream_calls
                (snd (gateway sample_routes refusing (upload_request ''POST'') ''img'')) = [c]"
    and "kw_files c = Some fs" and "distinct (map fst fs)"
    and "map_of fs ''doc'' = map_option (\<lambda>file. (filename file, stream file, mimetype file))
             (map_of (files (upload_request ''POST'')) ''doc'')"
    by blast
  with h1 h2 n m show ?thesis by auto
qed

end
